theory Spec2Isabelle
  imports Complex_Main "HOL-Library.Sublist"
begin

section \<open>Off-screen triangle renderer: a model of open-gl-triangle-to-file.c\<close>

text \<open>
  The program is one C file: \<^verbatim>\<open>save_ppm\<close>, \<^verbatim>\<open>check_shader_compile\<close> and \<^verbatim>\<open>main\<close>.
  Everything it does goes through EGL, OpenGL and the C library. The model makes those
  calls explicit:
  \<^item> every call is appended, in program order, to a \<open>trace\<close> of events;
  \<^item> every result the program reads back from a call (a handle that may be the null
    handle, a status flag, the bytes of the pixel buffer, whether \<^verbatim>\<open>fopen\<close> succeeds) is a
    field of the environment \<open>env\<close>, so that a run is a function of the environment and
    of the files that exist before it starts;
  \<^item> the file system is a map from paths to contents.
  A byte (\<^verbatim>\<open>unsigned char\<close>) is a \<open>char\<close>, which has exactly 256 values; a C \<^verbatim>\<open>int\<close> is an
  \<open>int\<close>, and the theorems about arbitrary dimensions are stated for the range in which
  the C arithmetic does not overflow.
\<close>

subsection \<open>Constants and compiled-in inputs\<close>

type_synonym byte = char

definition WIDTH :: int where
  "WIDTH = 640"

definition HEIGHT :: int where
  "HEIGHT = 480"

text \<open>The largest value of a 32-bit C \<^verbatim>\<open>int\<close>.\<close>

definition INT_MAX :: int where
  "INT_MAX = 2147483647"

definition vertex_shader_text :: string where
  "vertex_shader_text =
     ''#version 130\<newline>'' @
     ''uniform vec4 u_Vertices[3];\<newline>'' @
     ''void main()\<newline>'' @
     ''{\<newline>'' @
     ''    // Positions now come from a uniform array\<newline>'' @
     ''    gl_Position = u_Vertices[gl_VertexID];\<newline>'' @
     ''}\<newline>''"

definition fragment_shader_text :: string where
  "fragment_shader_text =
     ''#version 130\<newline>'' @
     ''out vec4 FragColor;\<newline>'' @
     ''void main()\<newline>'' @
     ''{\<newline>'' @
     ''    // Hardcoded color\<newline>'' @
     ''    FragColor = vec4(0.0, 1.0, 0.0, 1.0);\<newline>'' @
     ''}\<newline>''"

text \<open>The array \<^verbatim>\<open>vertices\<close> of \<^verbatim>\<open>main\<close>: top, bottom left, bottom right.\<close>

definition vertices :: "real list" where
  "vertices =
     [0, 1/2, 0, 1,
      - (1/2), - (1/2), 0, 1,
      1/2, - (1/2), 0, 1]"

subsection \<open>Events, environment and world\<close>

datatype stage = VertexShader | FragmentShader

datatype filter_param = MinFilter | MagFilter

datatype event =
    EglGetDisplay
  | EglInitialize
  | EglChooseConfig
  | EglBindAPI
  | EglCreateContext
  | EglCreatePbufferSurface int int
  | EglMakeCurrent
  | EglDestroySurface
  | EglDestroyContext
  | EglTerminate
  | GlGenFramebuffers
  | GlBindFramebuffer
  | GlGenTextures
  | GlBindTexture
  | GlTexImage2D int int
  | GlTexParameteri filter_param
  | GlFramebufferTexture2D
  | GlCheckFramebufferStatus
  | GlCreateShader stage
  | GlShaderSource stage string
  | GlCompileShader stage
  | GlGetShaderiv stage
  | GlGetShaderInfoLog stage nat
  | GlCreateProgram
  | GlAttachShader stage
  | GlLinkProgram
  | GlDeleteShader stage
  | GlUseProgram
  | GlGetUniformLocation string
  | GlUniform4fv int int "real list"
  | GlViewport int int int int
  | GlClearColor
  | GlClear
  | GlGenVertexArrays
  | GlBindVertexArray
  | GlDrawArrays int int
  | GlReadPixels int int int int
  | GlDeleteVertexArrays
  | GlDeleteProgram
  | GlDeleteFramebuffers
  | GlDeleteTextures
  | Malloc int
  | Free
  | Fopen string string
  | FileWrite string nat
  | Fclose string
  | Stderr string
  | Stdout string

text \<open>
  What the outside world answers. \<open>choose_config_ok\<close> is the value \<^verbatim>\<open>eglChooseConfig\<close>
  returns and \<open>num_configs\<close> the count it stores in \<^verbatim>\<open>numConfigs\<close>; \<open>link_status\<close> is the
  result of \<^verbatim>\<open>glLinkProgram\<close> as the driver records it; \<open>read_pixels env i\<close> is byte \<open>i\<close>
  of the buffer returned by \<^verbatim>\<open>malloc\<close> once \<^verbatim>\<open>glReadPixels\<close> has returned.
\<close>

record env =
  display_ok :: bool
  initialize_ok :: bool
  choose_config_ok :: bool
  num_configs :: int
  context_ok :: bool
  surface_ok :: bool
  make_current_ok :: bool
  framebuffer_complete :: bool
  compile_status :: "stage \<Rightarrow> bool"
  info_log :: "stage \<Rightarrow> string"
  link_status :: bool
  uniform_location :: int
  read_pixels :: "nat \<Rightarrow> byte"
  fopen_ok :: "string \<Rightarrow> bool"

record world =
  trace :: "event list"
  files :: "string \<rightharpoonup> byte list"

definition call :: "event \<Rightarrow> world \<Rightarrow> world" where
  "call e w = w\<lparr>trace := trace w @ [e]\<rparr>"

definition fprintf_stderr :: "string \<Rightarrow> world \<Rightarrow> world" where
  "fprintf_stderr s w = call (Stderr s) w"

definition printf :: "string \<Rightarrow> world \<Rightarrow> world" where
  "printf s w = call (Stdout s) w"

subsection \<open>The C library: streams and \<^verbatim>\<open>%d\<close>\<close>

text \<open>
  Modelled from the C standard: \<^verbatim>\<open>%d\<close> prints an \<^verbatim>\<open>int\<close> in decimal, with a minus sign
  when it is negative and no padding.
\<close>

function show_nat :: "nat \<Rightarrow> string" where
  "show_nat n =
     (if n < 10 then [char_of (48 + n)]
      else show_nat (n div 10) @ [char_of (48 + n mod 10)])"
  by pat_completeness auto
termination
  by (relation "measure id") auto

declare show_nat.simps [simp del]

definition show_int :: "int \<Rightarrow> string" where
  "show_int i = (if i < 0 then CHR ''-'' # show_nat (nat (- i)) else show_nat (nat i))"

text \<open>
  A stream opened for writing is named by its path. Opening with mode \<^verbatim>\<open>wb\<close> creates the
  file or truncates it; a write appends to what the stream holds, and stores all of its
  bytes (the program does not look at what \<^verbatim>\<open>fprintf\<close> and \<^verbatim>\<open>fwrite\<close> return).
\<close>

definition fopen_wb :: "string \<Rightarrow> world \<Rightarrow> world" where
  "fopen_wb path w = w\<lparr>files := (files w)(path \<mapsto> [])\<rparr>"

definition file_write :: "string \<Rightarrow> nat \<Rightarrow> byte list \<Rightarrow> world \<Rightarrow> world" where
  "file_write f n data w =
     (call (FileWrite f n) w)
       \<lparr>files := (files w)(f \<mapsto> (case files w f of None \<Rightarrow> data | Some c \<Rightarrow> c @ data))\<rparr>"

definition fprintf_file :: "string \<Rightarrow> string \<Rightarrow> world \<Rightarrow> world" where
  "fprintf_file f s w = file_write f (length s) s w"

text \<open>
  \<^verbatim>\<open>fwrite(&pixels[off], 1, n, f)\<close>: the \<open>n\<close> bytes of the buffer from offset \<open>off\<close>. The
  buffer is a list; the theorems below are about buffers that hold every byte read
  (\<open>width * height * 3\<close> of them), where \<open>take\<close> and \<open>drop\<close> never run short.
\<close>

definition fwrite :: "byte list \<Rightarrow> int \<Rightarrow> int \<Rightarrow> string \<Rightarrow> world \<Rightarrow> world" where
  "fwrite pixels off n f w = file_write f (nat n) (take (nat n) (drop (nat off) pixels)) w"

subsection \<open>\<^verbatim>\<open>save_ppm\<close>\<close>

text \<open>The loop \<^verbatim>\<open>for (int y = height - 1; y >= 0; y--)\<close>, from the current \<open>y\<close>.\<close>

function save_ppm_rows :: "string \<Rightarrow> int \<Rightarrow> byte list \<Rightarrow> int \<Rightarrow> world \<Rightarrow> world" where
  "save_ppm_rows f width pixels y w =
     (if y \<ge> 0
      then save_ppm_rows f width pixels (y - 1) (fwrite pixels (y * width * 3) (width * 3) f w)
      else w)"
  by pat_completeness auto
termination
  by (relation "measure (\<lambda>(f, width, pixels, y, w). nat (y + 1))") auto

declare save_ppm_rows.simps [simp del]

definition ppm_header :: "int \<Rightarrow> int \<Rightarrow> string" where
  "ppm_header width height =
     ''P6\<newline>'' @ show_int width @ '' '' @ show_int height @ ''\<newline>255\<newline>''"

definition save_ppm :: "env \<Rightarrow> string \<Rightarrow> int \<Rightarrow> int \<Rightarrow> byte list \<Rightarrow> world \<Rightarrow> world" where
  "save_ppm env filepath width height pixels w0 =
     (let w = call (Fopen filepath ''wb'') w0 in
      if \<not> fopen_ok env filepath
      then fprintf_stderr (''Failed to open file for writing: '' @ filepath @ ''\<newline>'') w
      else
        let w = fopen_wb filepath w;
            w = fprintf_file filepath (ppm_header width height) w;
            w = save_ppm_rows filepath width pixels (height - 1) w;
            w = call (Fclose filepath) w
        in printf (''Saved image to '' @ filepath @ ''\<newline>'') w)"

subsection \<open>\<^verbatim>\<open>check_shader_compile\<close>\<close>

text \<open>
  Modelled from the OpenGL interface: \<^verbatim>\<open>glGetShaderInfoLog(shader, bufSize, ...)\<close> stores at
  most \<open>bufSize\<close> bytes, the terminating zero byte among them, so the log that the program
  prints from its 512-byte array has at most \<open>bufSize - 1\<close> characters.
\<close>

definition glGetShaderInfoLog :: "env \<Rightarrow> stage \<Rightarrow> nat \<Rightarrow> string" where
  "glGetShaderInfoLog env shader bufSize = take (bufSize - 1) (info_log env shader)"

definition check_shader_compile :: "env \<Rightarrow> stage \<Rightarrow> world \<Rightarrow> world" where
  "check_shader_compile env shader w0 =
     (let w = call (GlGetShaderiv shader) w0;
          success = compile_status env shader in
      if \<not> success
      then
        let w = call (GlGetShaderInfoLog shader 512) w;
            infoLog = glGetShaderInfoLog env shader 512
        in fprintf_stderr (''Shader Compile Error: '' @ infoLog @ ''\<newline>'') w
      else w)"

subsection \<open>\<^verbatim>\<open>main\<close>\<close>

text \<open>
  The buffer \<^verbatim>\<open>pixels\<close>: \<^verbatim>\<open>malloc(WIDTH * HEIGHT * 3)\<close> fixes its size, the environment its
  contents after \<^verbatim>\<open>glReadPixels\<close>. The allocation is taken to succeed (the program does
  not test the pointer).
\<close>

definition pixel_buffer :: "env \<Rightarrow> int \<Rightarrow> byte list" where
  "pixel_buffer env n = map (read_pixels env) [0..<nat n]"

text \<open>
  \<^verbatim>\<open>main\<close>, started in a directory holding the files \<open>fs\<close>: the value it returns and the
  world it leaves.
\<close>

definition main :: "env \<Rightarrow> (string \<rightharpoonup> byte list) \<Rightarrow> int \<times> world" where
  "main env fs =
     (let w = call EglGetDisplay \<lparr>trace = [], files = fs\<rparr> in
      if \<not> display_ok env
      then (- 1, fprintf_stderr ''Failed to get EGL display\<newline>'' w)
      else
      let w = call EglInitialize w in
      if \<not> initialize_ok env
      then (- 1, fprintf_stderr ''Failed to initialize EGL\<newline>'' w)
      else
      let w = call EglChooseConfig w in
      if \<not> choose_config_ok env
      then (- 1, fprintf_stderr ''Failed to choose EGL config\<newline>'' w)
      else
      let w = call EglBindAPI w;
          w = call EglCreateContext w in
      if \<not> context_ok env
      then (- 1, fprintf_stderr ''Failed to create EGL context\<newline>'' w)
      else
      let w = call (EglCreatePbufferSurface WIDTH HEIGHT) w in
      if \<not> surface_ok env
      then (- 1, fprintf_stderr ''Failed to create EGL surface\<newline>'' w)
      else
      let w = call EglMakeCurrent w in
      if \<not> make_current_ok env
      then (- 1, fprintf_stderr ''Failed to make context current\<newline>'' w)
      else
      let w = call GlGenFramebuffers w;
          w = call GlBindFramebuffer w;
          w = call GlGenTextures w;
          w = call GlBindTexture w;
          w = call (GlTexImage2D WIDTH HEIGHT) w;
          w = call (GlTexParameteri MinFilter) w;
          w = call (GlTexParameteri MagFilter) w;
          w = call GlFramebufferTexture2D w;
          w = call GlCheckFramebufferStatus w in
      if \<not> framebuffer_complete env
      then (- 1, fprintf_stderr ''Error: Framebuffer is not complete!\<newline>'' w)
      else
      let w = call (GlCreateShader VertexShader) w;
          w = call (GlShaderSource VertexShader vertex_shader_text) w;
          w = call (GlCompileShader VertexShader) w;
          w = check_shader_compile env VertexShader w;
          w = call (GlCreateShader FragmentShader) w;
          w = call (GlShaderSource FragmentShader fragment_shader_text) w;
          w = call (GlCompileShader FragmentShader) w;
          w = check_shader_compile env FragmentShader w;
          w = call GlCreateProgram w;
          w = call (GlAttachShader VertexShader) w;
          w = call (GlAttachShader FragmentShader) w;
          w = call GlLinkProgram w;
          w = call (GlDeleteShader VertexShader) w;
          w = call (GlDeleteShader FragmentShader) w;
          w = call GlUseProgram w;
          w = call (GlGetUniformLocation ''u_Vertices'') w;
          verticesLoc = uniform_location env;
          w = (if verticesLoc \<noteq> - 1
               then call (GlUniform4fv verticesLoc 3 vertices) w
               else fprintf_stderr
                      ''Warning: Could not find u_Vertices uniform location.\<newline>'' w);
          w = call (GlViewport 0 0 WIDTH HEIGHT) w;
          w = call GlClearColor w;
          w = call GlClear w;
          w = call GlGenVertexArrays w;
          w = call GlBindVertexArray w;
          w = call (GlDrawArrays 0 3) w;
          w = call (Malloc (WIDTH * HEIGHT * 3)) w;
          w = call (GlReadPixels 0 0 WIDTH HEIGHT) w;
          pixels = pixel_buffer env (WIDTH * HEIGHT * 3);
          w = save_ppm env ''output.ppm'' WIDTH HEIGHT pixels w;
          w = call GlDeleteVertexArrays w;
          w = call GlDeleteProgram w;
          w = call GlDeleteFramebuffers w;
          w = call GlDeleteTextures w;
          w = call Free w;
          w = call EglDestroySurface w;
          w = call EglDestroyContext w;
          w = call EglTerminate w
      in (0, w))"

section \<open>Vocabulary of the properties\<close>

subsection \<open>Images\<close>

text \<open>
  Row \<open>i\<close> of a row-major image that is \<open>width\<close> pixels wide, three bytes a pixel and
  no padding between rows.
\<close>

definition buffer_row :: "int \<Rightarrow> byte list \<Rightarrow> int \<Rightarrow> byte list" where
  "buffer_row width bytes i = take (nat (width * 3)) (drop (nat (i * width * 3)) bytes)"

text \<open>Rows \<open>n - 1\<close> down to \<open>0\<close> of the buffer, one after the other.\<close>

definition rows_written :: "int \<Rightarrow> byte list \<Rightarrow> nat \<Rightarrow> byte list" where
  "rows_written width pixels n = concat (map (\<lambda>i. buffer_row width pixels (int i)) (rev [0..<n]))"

subsection \<open>Segments of the trace\<close>

text \<open>
  \<open>setup_ok\<close>: the seven checks of \<^verbatim>\<open>main\<close> that return \<open>-1\<close> all pass, so the run
  reaches the shaders. The lists name the calls of each part of \<^verbatim>\<open>main\<close>, in order.
\<close>

definition setup_ok :: "env \<Rightarrow> bool" where
  "setup_ok env =
     (display_ok env \<and> initialize_ok env \<and> choose_config_ok env \<and> context_ok env \<and>
      surface_ok env \<and> make_current_ok env \<and> framebuffer_complete env)"

definition setup_events :: "event list" where
  "setup_events =
     [EglGetDisplay, EglInitialize, EglChooseConfig, EglBindAPI, EglCreateContext,
      EglCreatePbufferSurface WIDTH HEIGHT, EglMakeCurrent,
      GlGenFramebuffers, GlBindFramebuffer, GlGenTextures, GlBindTexture,
      GlTexImage2D WIDTH HEIGHT, GlTexParameteri MinFilter, GlTexParameteri MagFilter,
      GlFramebufferTexture2D, GlCheckFramebufferStatus]"

definition compile_events :: "env \<Rightarrow> stage \<Rightarrow> event list" where
  "compile_events env shader =
     (if compile_status env shader then [GlGetShaderiv shader]
      else [GlGetShaderiv shader, GlGetShaderInfoLog shader 512,
            Stderr (''Shader Compile Error: '' @ glGetShaderInfoLog env shader 512 @ ''\<newline>'')])"

definition shader_events :: "env \<Rightarrow> event list" where
  "shader_events env =
     [GlCreateShader VertexShader, GlShaderSource VertexShader vertex_shader_text,
      GlCompileShader VertexShader] @ compile_events env VertexShader @
     [GlCreateShader FragmentShader, GlShaderSource FragmentShader fragment_shader_text,
      GlCompileShader FragmentShader] @ compile_events env FragmentShader"

definition link_events :: "event list" where
  "link_events =
     [GlCreateProgram, GlAttachShader VertexShader, GlAttachShader FragmentShader,
      GlLinkProgram, GlDeleteShader VertexShader, GlDeleteShader FragmentShader,
      GlUseProgram, GlGetUniformLocation ''u_Vertices'']"

definition uniform_events :: "env \<Rightarrow> event list" where
  "uniform_events env =
     (if uniform_location env \<noteq> - 1 then [GlUniform4fv (uniform_location env) 3 vertices]
      else [Stderr ''Warning: Could not find u_Vertices uniform location.\<newline>''])"

definition draw_events :: "event list" where
  "draw_events =
     [GlViewport 0 0 WIDTH HEIGHT, GlClearColor, GlClear, GlGenVertexArrays,
      GlBindVertexArray, GlDrawArrays 0 3, Malloc (WIDTH * HEIGHT * 3),
      GlReadPixels 0 0 WIDTH HEIGHT]"

definition save_ppm_events :: "env \<Rightarrow> string \<Rightarrow> int \<Rightarrow> int \<Rightarrow> event list" where
  "save_ppm_events env filepath width height =
     (if fopen_ok env filepath
      then [Fopen filepath ''wb'', FileWrite filepath (length (ppm_header width height))] @
           replicate (nat height) (FileWrite filepath (nat (width * 3))) @
           [Fclose filepath, Stdout (''Saved image to '' @ filepath @ ''\<newline>'')]
      else [Fopen filepath ''wb'',
            Stderr (''Failed to open file for writing: '' @ filepath @ ''\<newline>'')])"

definition cleanup_events :: "event list" where
  "cleanup_events =
     [GlDeleteVertexArrays, GlDeleteProgram, GlDeleteFramebuffers, GlDeleteTextures, Free,
      EglDestroySurface, EglDestroyContext, EglTerminate]"

subsection \<open>Concrete environments\<close>

text \<open>
  \<open>env_ok\<close>: every call succeeds. The others differ from it in one answer: \<^verbatim>\<open>fopen\<close>
  fails; the uniform is not found; the framebuffer is incomplete; the program does not
  link; the vertex stage does not compile; \<^verbatim>\<open>eglChooseConfig\<close> returns \<^verbatim>\<open>EGL_TRUE\<close> having
  matched no configuration, and no context can be created from the configuration it
  never stored.
\<close>

definition env_ok :: env where
  "env_ok =
     \<lparr>display_ok = True, initialize_ok = True, choose_config_ok = True, num_configs = 1,
      context_ok = True, surface_ok = True, make_current_ok = True,
      framebuffer_complete = True, compile_status = (\<lambda>s. True), info_log = (\<lambda>s. []),
      link_status = True, uniform_location = 0, read_pixels = (\<lambda>i. CHR 0x00),
      fopen_ok = (\<lambda>p. True)\<rparr>"

definition env_open_failed :: env where
  "env_open_failed = env_ok\<lparr>fopen_ok := (\<lambda>p. False)\<rparr>"

definition env_no_uniform :: env where
  "env_no_uniform = env_ok\<lparr>uniform_location := - 1\<rparr>"

definition env_incomplete :: env where
  "env_incomplete = env_ok\<lparr>framebuffer_complete := False\<rparr>"

definition env_link_failed :: env where
  "env_link_failed = env_ok\<lparr>link_status := False\<rparr>"

definition env_compile_failed :: env where
  "env_compile_failed =
     env_ok\<lparr>compile_status := (\<lambda>s. s \<noteq> VertexShader),
            info_log := (\<lambda>s. ''0:1(1): error: syntax error'')\<rparr>"

definition env_no_config :: env where
  "env_no_config = env_ok\<lparr>num_configs := 0, context_ok := False\<rparr>"

section \<open>What each function does\<close>

subsection \<open>Calls and writes\<close>

lemma trace_call [simp]: "trace (call e w) = trace w @ [e]"
  by (simp add: call_def)

lemma files_call [simp]: "files (call e w) = files w"
  by (simp add: call_def)

lemma trace_file_write [simp]: "trace (file_write f n data w) = trace w @ [FileWrite f n]"
  by (simp add: file_write_def)

lemma files_file_write:
  "files w f = Some c \<Longrightarrow> files (file_write f n data w) = (files w)(f \<mapsto> c @ data)"
  by (simp add: file_write_def)

lemma fwrite_row:
  "fwrite pixels (y * width * 3) (width * 3) f w =
     file_write f (nat (width * 3)) (buffer_row width pixels y) w"
  by (simp add: fwrite_def buffer_row_def)

subsection \<open>The row loop\<close>

text \<open>
  By induction on the number of rows still to write: the loop appends one write per row
  to the trace, and rows \<open>n - 1, \<dots>, 0\<close> of the buffer to the stream.
\<close>

lemma trace_save_ppm_rows:
  "trace (save_ppm_rows f width pixels (int n - 1) w) =
     trace w @ replicate n (FileWrite f (nat (width * 3)))"
proof (induction n arbitrary: w)
  case 0
  show ?case
    by (simp add: save_ppm_rows.simps [of _ _ _ "- 1"])
next
  case (Suc n)
  have "save_ppm_rows f width pixels (int (Suc n) - 1) w =
          save_ppm_rows f width pixels (int n - 1)
            (fwrite pixels (int n * width * 3) (width * 3) f w)"
    by (subst save_ppm_rows.simps) simp
  then show ?case
    by (simp add: Suc.IH fwrite_row replicate_append_same)
qed

lemma files_save_ppm_rows:
  "files w f = Some c \<Longrightarrow>
   files (save_ppm_rows f width pixels (int n - 1) w) =
     (files w)(f \<mapsto> c @ rows_written width pixels n)"
proof (induction n arbitrary: w c)
  case 0
  then show ?case
    by (simp add: save_ppm_rows.simps [of _ _ _ "- 1"] rows_written_def fun_upd_idem)
next
  case (Suc n)
  let ?w = "fwrite pixels (int n * width * 3) (width * 3) f w"
  have step: "save_ppm_rows f width pixels (int (Suc n) - 1) w =
                save_ppm_rows f width pixels (int n - 1) ?w"
    by (subst save_ppm_rows.simps) simp
  have fw: "files ?w = (files w)(f \<mapsto> c @ buffer_row width pixels (int n))"
    by (simp add: fwrite_row files_file_write [OF Suc.prems])
  then have open': "files ?w f = Some (c @ buffer_row width pixels (int n))"
    by simp
  have "files (save_ppm_rows f width pixels (int (Suc n) - 1) w) =
          files (save_ppm_rows f width pixels (int n - 1) ?w)"
    by (simp only: step)
  also have "\<dots> = (files ?w)(f \<mapsto> (c @ buffer_row width pixels (int n)) @ rows_written width pixels n)"
    by (rule Suc.IH [OF open'])
  also have "\<dots> = (files w)(f \<mapsto> c @ rows_written width pixels (Suc n))"
    by (simp add: fw rows_written_def)
  finally show ?case .
qed

lemma save_ppm_rows_height:
  "save_ppm_rows f width pixels (height - 1) w =
     save_ppm_rows f width pixels (int (nat height) - 1) w"
proof (cases "0 \<le> height")
  case True
  then show ?thesis by simp
next
  case False
  then show ?thesis
    by (simp add: save_ppm_rows.simps [of _ _ _ "height - 1"] save_ppm_rows.simps [of _ _ _ "- 1"])
qed

lemma trace_save_ppm_loop:
  "trace (save_ppm_rows f width pixels (height - 1) w) =
     trace w @ replicate (nat height) (FileWrite f (nat (width * 3)))"
  by (subst save_ppm_rows_height) (rule trace_save_ppm_rows)

lemma files_save_ppm_loop:
  "files w f = Some c \<Longrightarrow>
   files (save_ppm_rows f width pixels (height - 1) w) =
     (files w)(f \<mapsto> c @ rows_written width pixels (nat height))"
  by (subst save_ppm_rows_height) (rule files_save_ppm_rows)

subsection \<open>Rows of the payload\<close>

lemma length_concat_uniform:
  "\<forall>xs \<in> set xss. length xs = n \<Longrightarrow> length (concat xss) = length xss * n"
  by (induction xss) auto

lemma take_drop_concat_nth:
  "\<forall>xs \<in> set xss. length xs = n \<Longrightarrow> k < length xss \<Longrightarrow>
   take n (drop (k * n) (concat xss)) = xss ! k"
proof (induction xss arbitrary: k)
  case Nil
  then show ?case by simp
next
  case (Cons xs xss)
  show ?case
  proof (cases k)
    case 0
    with Cons.prems show ?thesis by simp
  next
    case (Suc j)
    with Cons.prems have "take n (drop (j * n) (concat xss)) = xss ! j"
      by (intro Cons.IH) auto
    with Suc Cons.prems show ?thesis by simp
  qed
qed

lemma length_buffer_row:
  assumes "0 \<le> width" "length pixels = nat (width * height * 3)" "0 \<le> i" "i < height"
  shows "length (buffer_row width pixels i) = nat (width * 3)"
proof -
  define off where "off = i * width * 3"
  define total where "total = width * height * 3"
  have "(i + 1) * (width * 3) \<le> height * (width * 3)"
    using assms by (intro mult_right_mono) auto
  then have le: "off + width * 3 \<le> total"
    by (simp add: algebra_simps off_def total_def)
  have nonneg: "0 \<le> off"
    using assms by (simp add: off_def)
  have "length pixels = nat total"
    using assms by (simp add: total_def)
  then have "length (take (nat (width * 3)) (drop (nat off) pixels)) = nat (width * 3)"
    using le nonneg assms(1) by simp
  then show ?thesis
    by (simp add: buffer_row_def off_def)
qed

lemma length_rows_written:
  assumes "0 \<le> width" "length pixels = nat (width * height * 3)" "int n \<le> height"
  shows "length (rows_written width pixels n) = n * nat (width * 3)"
proof -
  let ?xss = "map (\<lambda>i. buffer_row width pixels (int i)) (rev [0..<n])"
  have "\<forall>xs \<in> set ?xss. length xs = nat (width * 3)"
    using assms by (auto intro!: length_buffer_row [where height = height])
  then have "length (concat ?xss) = length ?xss * nat (width * 3)"
    by (rule length_concat_uniform)
  then show ?thesis
    by (simp add: rows_written_def)
qed

lemma rows_written_row:
  assumes "0 \<le> width" "length pixels = nat (width * height * 3)" "int n \<le> height" "k < n"
  shows "take (nat (width * 3)) (drop (k * nat (width * 3)) (rows_written width pixels n)) =
           buffer_row width pixels (int (n - 1 - k))"
proof -
  let ?xss = "map (\<lambda>i. buffer_row width pixels (int i)) (rev [0..<n])"
  have "\<forall>xs \<in> set ?xss. length xs = nat (width * 3)"
    using assms by (auto intro!: length_buffer_row [where height = height])
  moreover have "k < length ?xss"
    using assms by simp
  ultimately have "take (nat (width * 3)) (drop (k * nat (width * 3)) (concat ?xss)) = ?xss ! k"
    by (rule take_drop_concat_nth)
  also have "\<dots> = buffer_row width pixels (int (n - 1 - k))"
    using assms by (simp add: rev_nth)
  finally show ?thesis
    by (simp add: rows_written_def)
qed

subsection \<open>\<^verbatim>\<open>save_ppm\<close> and \<^verbatim>\<open>check_shader_compile\<close>\<close>

lemma trace_save_ppm:
  "trace (save_ppm env filepath width height pixels w) =
     trace w @ save_ppm_events env filepath width height"
  by (simp add: save_ppm_def save_ppm_events_def Let_def fprintf_stderr_def printf_def
      fprintf_file_def fopen_wb_def trace_save_ppm_loop)

lemma files_save_ppm:
  "files (save_ppm env filepath width height pixels w) =
     (if fopen_ok env filepath
      then (files w)(filepath \<mapsto> ppm_header width height @ rows_written width pixels (nat height))
      else files w)"
proof (cases "fopen_ok env filepath")
  case False
  then show ?thesis
    by (simp add: save_ppm_def Let_def fprintf_stderr_def)
next
  case True
  let ?w = "fprintf_file filepath (ppm_header width height)
              (fopen_wb filepath (call (Fopen filepath ''wb'') w))"
  have hdr: "files ?w = (files w)(filepath \<mapsto> ppm_header width height)"
    by (simp add: fprintf_file_def fopen_wb_def file_write_def)
  then have "files ?w filepath = Some (ppm_header width height)"
    by simp
  then have "files (save_ppm_rows filepath width pixels (height - 1) ?w) =
               (files ?w)(filepath \<mapsto> ppm_header width height @ rows_written width pixels (nat height))"
    by (rule files_save_ppm_loop)
  with True show ?thesis
    by (simp add: save_ppm_def Let_def printf_def hdr)
qed

lemma trace_check_shader_compile:
  "trace (check_shader_compile env shader w) = trace w @ compile_events env shader"
  by (simp add: check_shader_compile_def compile_events_def Let_def fprintf_stderr_def)

lemma files_check_shader_compile:
  "files (check_shader_compile env shader w) = files w"
  by (simp add: check_shader_compile_def Let_def fprintf_stderr_def)

lemma ppm_header_640_480:
  "ppm_header 640 480 = ''P6\<newline>640 480\<newline>255\<newline>''"
  by code_simp

lemma length_pixel_buffer: "length (pixel_buffer env n) = nat n"
  by (simp add: pixel_buffer_def)

subsection \<open>\<^verbatim>\<open>main\<close>\<close>

text \<open>
  The value returned, and the trace and the files of a run whose setup succeeds; a run
  whose setup fails makes setup calls only, prints to the standard error stream and leaves
  the files alone.
\<close>

lemma fst_main: "fst (main env fs) = (if setup_ok env then 0 else - 1)"
  by (simp add: main_def setup_ok_def Let_def)

lemma trace_main_ok:
  "setup_ok env \<Longrightarrow>
   trace (snd (main env fs)) =
     setup_events @ shader_events env @ link_events @ uniform_events env @ draw_events @
     save_ppm_events env ''output.ppm'' WIDTH HEIGHT @ cleanup_events"
  by (simp add: main_def setup_ok_def Let_def fprintf_stderr_def trace_save_ppm
      trace_check_shader_compile setup_events_def shader_events_def link_events_def
      uniform_events_def draw_events_def cleanup_events_def)

lemma files_main_ok:
  "setup_ok env \<Longrightarrow>
   files (snd (main env fs)) =
     (if fopen_ok env ''output.ppm''
      then fs(''output.ppm'' \<mapsto>
             ppm_header WIDTH HEIGHT @
             rows_written WIDTH (pixel_buffer env (WIDTH * HEIGHT * 3)) (nat HEIGHT))
      else fs)"
  by (simp add: main_def setup_ok_def Let_def fprintf_stderr_def files_save_ppm
      files_check_shader_compile)

lemma main_setup_failed:
  "\<not> setup_ok env \<Longrightarrow>
   files (snd (main env fs)) = fs \<and>
   set (trace (snd (main env fs))) \<subseteq> set setup_events \<union> range Stderr"
  by (simp add: main_def setup_ok_def Let_def fprintf_stderr_def setup_events_def)

lemma trace_main_incomplete:
  "display_ok env \<Longrightarrow> initialize_ok env \<Longrightarrow> choose_config_ok env \<Longrightarrow> context_ok env \<Longrightarrow>
   surface_ok env \<Longrightarrow> make_current_ok env \<Longrightarrow> \<not> framebuffer_complete env \<Longrightarrow>
   trace (snd (main env fs)) =
     setup_events @ [Stderr ''Error: Framebuffer is not complete!\<newline>'']"
  by (simp add: main_def Let_def fprintf_stderr_def setup_events_def)

lemma setup_events_only:
  "e \<in> set setup_events \<union> range Stderr \<Longrightarrow>
   (\<forall>a b. e \<noteq> GlDrawArrays a b) \<and> (\<forall>x y w h. e \<noteq> GlReadPixels x y w h) \<and>
   (\<forall>p m. e \<noteq> Fopen p m) \<and> (\<forall>f n. e \<noteq> FileWrite f n)"
  by (auto simp: setup_events_def)

text \<open>
  The file of a successful run, the calls that occur in a run whose setup succeeds, and
  the two answers of the environment that \<^verbatim>\<open>main\<close> never reads.
\<close>

lemma main_output_file:
  assumes "setup_ok env" and "fopen_ok env ''output.ppm''"
  shows "\<exists>payload.
           files (snd (main env fs)) ''output.ppm'' =
             Some (''P6\<newline>640 480\<newline>255\<newline>'' @ payload) \<and>
           length payload = 640 * 480 * 3"
proof -
  let ?payload = "rows_written 640 (pixel_buffer env (640 * 480 * 3)) 480"
  have "length ?payload = 480 * nat (640 * 3)"
    by (rule length_rows_written [where height = 480]) (simp_all add: length_pixel_buffer)
  then have len: "length ?payload = 640 * 480 * 3"
    by simp
  have "files (snd (main env fs)) ''output.ppm'' =
          Some (''P6\<newline>640 480\<newline>255\<newline>'' @ ?payload)"
    using assms by (simp add: files_main_ok WIDTH_def HEIGHT_def ppm_header_640_480)
  with len show ?thesis
    by blast
qed

lemma no_file_write_before_save:
  "FileWrite f n \<notin> set (setup_events @ shader_events env @ link_events @ uniform_events env @ draw_events)"
  by (simp add: setup_events_def shader_events_def compile_events_def link_events_def
      uniform_events_def draw_events_def)

lemma no_uniform_upload:
  "uniform_location env = - 1 \<Longrightarrow>
   GlUniform4fv loc count v \<notin>
     set (setup_events @ shader_events env @ link_events @ uniform_events env @ draw_events @
          save_ppm_events env path width height @ cleanup_events)"
  by (simp add: setup_events_def shader_events_def compile_events_def link_events_def
      uniform_events_def draw_events_def save_ppm_events_def cleanup_events_def)

lemma fopen_events:
  "Fopen path mode \<in>
     set (setup_events @ shader_events env @ link_events @ uniform_events env @ draw_events @
          save_ppm_events env p width height @ cleanup_events) \<longleftrightarrow>
   path = p \<and> mode = ''wb''"
  by (auto simp: setup_events_def shader_events_def compile_events_def link_events_def
      uniform_events_def draw_events_def save_ppm_events_def cleanup_events_def)

lemma main_ignores_link_status: "main (env\<lparr>link_status := b\<rparr>) fs = main env fs"
proof -
  have "save_ppm (env\<lparr>link_status := b\<rparr>) = save_ppm env"
    by (simp add: fun_eq_iff save_ppm_def)
  moreover have "check_shader_compile (env\<lparr>link_status := b\<rparr>) = check_shader_compile env"
    by (simp add: fun_eq_iff check_shader_compile_def glGetShaderInfoLog_def Let_def)
  moreover have "pixel_buffer (env\<lparr>link_status := b\<rparr>) = pixel_buffer env"
    by (simp add: fun_eq_iff pixel_buffer_def)
  ultimately show ?thesis
    by (simp add: main_def Let_def)
qed

lemma main_ignores_num_configs: "main (env\<lparr>num_configs := n\<rparr>) fs = main env fs"
proof -
  have "save_ppm (env\<lparr>num_configs := n\<rparr>) = save_ppm env"
    by (simp add: fun_eq_iff save_ppm_def)
  moreover have "check_shader_compile (env\<lparr>num_configs := n\<rparr>) = check_shader_compile env"
    by (simp add: fun_eq_iff check_shader_compile_def glGetShaderInfoLog_def Let_def)
  moreover have "pixel_buffer (env\<lparr>num_configs := n\<rparr>) = pixel_buffer env"
    by (simp add: fun_eq_iff pixel_buffer_def)
  ultimately show ?thesis
    by (simp add: main_def Let_def)
qed

section \<open>The claims\<close>

text \<open>
  C1. In every successful run (the setup succeeds and \<^verbatim>\<open>output.ppm\<close> can be opened) the
  file written by \<^verbatim>\<open>save_ppm\<close> is the header \<^verbatim>\<open>P6\n640 480\n255\n\<close> followed by a payload of
  exactly \<open>640 * 480 * 3\<close> bytes.
\<close>

theorem main_writes_header_and_payload:
  assumes "setup_ok env" and "fopen_ok env ''output.ppm''"
  shows "\<exists>payload.
           files (snd (main env fs)) ''output.ppm'' =
             Some (''P6\<newline>640 480\<newline>255\<newline>'' @ payload) \<and>
           length payload = 640 * 480 * 3"
  using assms by (rule main_output_file)

theorem main_writes_header_and_payload_witness:
  "setup_ok env_ok \<and> fopen_ok env_ok ''output.ppm'' \<and>
   (\<exists>payload.
      files (snd (main env_ok Map.empty)) ''output.ppm'' =
        Some (''P6\<newline>640 480\<newline>255\<newline>'' @ payload) \<and>
      length payload = 640 * 480 * 3)"
  using main_writes_header_and_payload [of env_ok Map.empty]
  by (simp add: env_ok_def setup_ok_def)

text \<open>
  C2. For a buffer of \<open>width * height * 3\<close> bytes and every row \<open>i\<close> with
  \<open>0 \<le> i < height\<close>, row \<open>height - 1 - i\<close> of the payload that \<^verbatim>\<open>save_ppm\<close> writes is row \<open>i\<close> of
  the buffer, byte for byte, and the payload has no byte besides the rows. The
  dimensions range over the values for which \<open>width * height * 3\<close> is a C \<^verbatim>\<open>int\<close>.
\<close>

theorem save_ppm_rows_reversed:
  assumes "fopen_ok env filepath"
    and "0 \<le> width" and "width * height * 3 \<le> INT_MAX"
    and "length pixels = nat (width * height * 3)"
    and "0 \<le> i" and "i < height"
  shows "\<exists>payload.
           files (save_ppm env filepath width height pixels w) filepath =
             Some (ppm_header width height @ payload) \<and>
           length payload = nat (width * height * 3) \<and>
           buffer_row width payload (height - 1 - i) = buffer_row width pixels i"
proof -
  let ?payload = "rows_written width pixels (nat height)"
  have h: "int (nat height) \<le> height" "nat (height - 1 - i) < nat height"
    using assms by simp_all
  have "files (save_ppm env filepath width height pixels w) filepath =
          Some (ppm_header width height @ ?payload)"
    using assms(1) by (simp add: files_save_ppm)
  moreover have "length ?payload = nat height * nat (width * 3)"
    using assms(2,4) h(1) by (rule length_rows_written)
  then have "length ?payload = nat (width * height * 3)"
    using assms by (simp add: nat_mult_distrib mult_ac)
  moreover have "buffer_row width ?payload (height - 1 - i) = buffer_row width pixels i"
  proof -
    have "take (nat (width * 3)) (drop (nat (height - 1 - i) * nat (width * 3)) ?payload) =
            buffer_row width pixels (int (nat height - 1 - nat (height - 1 - i)))"
      using assms(2,4) h by (rule rows_written_row)
    moreover have "int (nat height - 1 - nat (height - 1 - i)) = i"
      using assms by simp
    moreover have "nat ((height - 1 - i) * width * 3) = nat (height - 1 - i) * nat (width * 3)"
    proof -
      have "0 \<le> height - 1 - i"
        using assms by simp
      then have "nat ((height - 1 - i) * (width * 3)) = nat (height - 1 - i) * nat (width * 3)"
        by (rule nat_mult_distrib)
      then show ?thesis
        by (simp only: mult.assoc)
    qed
    ultimately show ?thesis
      by (simp add: buffer_row_def [of width ?payload])
  qed
  ultimately show ?thesis
    by blast
qed

theorem save_ppm_rows_reversed_witness:
  "fopen_ok env_ok ''output.ppm'' \<and> (0::int) \<le> 2 \<and> (2::int) * 2 * 3 \<le> INT_MAX \<and>
   length ''abcdefghijkl'' = nat (2 * 2 * 3) \<and> (0::int) \<le> 0 \<and> (0::int) < 2 \<and>
   (\<exists>payload.
      files (save_ppm env_ok ''output.ppm'' 2 2 ''abcdefghijkl'' \<lparr>trace = [], files = Map.empty\<rparr>)
        ''output.ppm'' = Some (ppm_header 2 2 @ payload) \<and>
      length payload = nat (2 * 2 * 3) \<and>
      buffer_row 2 payload (2 - 1 - 0) = buffer_row 2 ''abcdefghijkl'' 0)"
  using save_ppm_rows_reversed
    [of env_ok "''output.ppm''" 2 2 "''abcdefghijkl''" 0 "\<lparr>trace = [], files = Map.empty\<rparr>"]
  by (simp add: env_ok_def INT_MAX_def)

text \<open>
  C3. When \<^verbatim>\<open>output.ppm\<close> cannot be opened, \<^verbatim>\<open>save_ppm\<close> only records the attempt and prints
  the error; the run leaves every file as it was and writes to no stream, and it ends
  with the releases of the vertex array, the program, the framebuffer, the texture, the
  pixel buffer, the surface, the context and the display, in that order.
\<close>

theorem open_failure_skips_write_and_cleans_up:
  assumes "setup_ok env" and "\<not> fopen_ok env ''output.ppm''"
  shows "save_ppm env ''output.ppm'' width height pixels w =
           w\<lparr>trace := trace w @
              [Fopen ''output.ppm'' ''wb'',
               Stderr ''Failed to open file for writing: output.ppm\<newline>'']\<rparr> \<and>
         files (snd (main env fs)) = fs \<and>
         (\<forall>f n. FileWrite f n \<notin> set (trace (snd (main env fs)))) \<and>
         suffix
           [Fopen ''output.ppm'' ''wb'',
            Stderr ''Failed to open file for writing: output.ppm\<newline>'',
            GlDeleteVertexArrays, GlDeleteProgram, GlDeleteFramebuffers, GlDeleteTextures, Free,
            EglDestroySurface, EglDestroyContext, EglTerminate]
           (trace (snd (main env fs)))"
proof (intro conjI allI)
  show "save_ppm env ''output.ppm'' width height pixels w =
          w\<lparr>trace := trace w @
             [Fopen ''output.ppm'' ''wb'',
              Stderr ''Failed to open file for writing: output.ppm\<newline>'']\<rparr>"
    using assms(2) by (simp add: save_ppm_def Let_def call_def fprintf_stderr_def)
  show "files (snd (main env fs)) = fs"
    using assms by (simp add: files_main_ok)
  have tr: "trace (snd (main env fs)) =
              (setup_events @ shader_events env @ link_events @ uniform_events env @ draw_events) @
              [Fopen ''output.ppm'' ''wb'',
               Stderr ''Failed to open file for writing: output.ppm\<newline>'',
               GlDeleteVertexArrays, GlDeleteProgram, GlDeleteFramebuffers, GlDeleteTextures,
               Free, EglDestroySurface, EglDestroyContext, EglTerminate]"
    using assms by (simp add: trace_main_ok save_ppm_events_def cleanup_events_def)
  then show "suffix
           [Fopen ''output.ppm'' ''wb'',
            Stderr ''Failed to open file for writing: output.ppm\<newline>'',
            GlDeleteVertexArrays, GlDeleteProgram, GlDeleteFramebuffers, GlDeleteTextures, Free,
            EglDestroySurface, EglDestroyContext, EglTerminate]
           (trace (snd (main env fs)))"
    by (rule suffixI)
  show "FileWrite f n \<notin> set (trace (snd (main env fs)))" for f n
    using no_file_write_before_save [of f n env] by (simp add: tr)
qed

theorem open_failure_skips_write_and_cleans_up_witness:
  "setup_ok env_open_failed \<and> \<not> fopen_ok env_open_failed ''output.ppm'' \<and>
   files (snd (main env_open_failed Map.empty)) = Map.empty \<and>
   suffix
     [Fopen ''output.ppm'' ''wb'',
      Stderr ''Failed to open file for writing: output.ppm\<newline>'',
      GlDeleteVertexArrays, GlDeleteProgram, GlDeleteFramebuffers, GlDeleteTextures, Free,
      EglDestroySurface, EglDestroyContext, EglTerminate]
     (trace (snd (main env_open_failed Map.empty)))"
  using open_failure_skips_write_and_cleans_up [of env_open_failed _ _ _ _ Map.empty]
  by (simp add: env_open_failed_def env_ok_def setup_ok_def)

text \<open>
  C4. \<^verbatim>\<open>main\<close> tests the value \<^verbatim>\<open>eglChooseConfig\<close> returns and never reads \<^verbatim>\<open>numConfigs\<close>. In
  the environment \<open>env_no_config\<close> the call returns \<^verbatim>\<open>EGL_TRUE\<close> with a count of zero: the run
  prints nothing about the configuration, goes on to \<^verbatim>\<open>eglBindAPI\<close> and
  \<^verbatim>\<open>eglCreateContext\<close>, and stops only when the context cannot be created. In every
  environment the run is the same whatever count is stored.
\<close>

theorem no_matching_config_reaches_context_creation:
  "choose_config_ok env_no_config \<and> num_configs env_no_config = 0 \<and>
   main env_no_config Map.empty =
     (- 1,
      \<lparr>trace = [EglGetDisplay, EglInitialize, EglChooseConfig, EglBindAPI, EglCreateContext,
                Stderr ''Failed to create EGL context\<newline>''],
       files = Map.empty\<rparr>) \<and>
   main (env\<lparr>num_configs := n\<rparr>) fs = main env fs"
  by (simp add: main_ignores_num_configs)
     (simp add: env_no_config_def env_ok_def main_def Let_def call_def fprintf_stderr_def)

text \<open>
  C5, as stated: a link failure halts the run after \<^verbatim>\<open>glLinkProgram\<close>. In the environment
  \<open>env_link_failed\<close> the program does not link, and the run goes on from \<^verbatim>\<open>glLinkProgram\<close>
  through the draw, the readback and \<^verbatim>\<open>fopen\<close>, and returns 0.
\<close>

theorem link_failure_does_not_halt:
  "setup_ok env_link_failed \<and> \<not> link_status env_link_failed \<and>
   sublist
     [GlLinkProgram, GlDeleteShader VertexShader, GlDeleteShader FragmentShader, GlUseProgram,
      GlGetUniformLocation ''u_Vertices'', GlUniform4fv 0 3 vertices,
      GlViewport 0 0 640 480, GlClearColor, GlClear, GlGenVertexArrays, GlBindVertexArray,
      GlDrawArrays 0 3, Malloc (640 * 480 * 3), GlReadPixels 0 0 640 480,
      Fopen ''output.ppm'' ''wb'']
     (trace (snd (main env_link_failed Map.empty))) \<and>
   fst (main env_link_failed Map.empty) = 0"
proof -
  have ok: "setup_ok env_link_failed"
    by (simp add: env_link_failed_def env_ok_def setup_ok_def)
  have "trace (snd (main env_link_failed Map.empty)) =
          (setup_events @ shader_events env_link_failed @ take 3 link_events) @
          [GlLinkProgram, GlDeleteShader VertexShader, GlDeleteShader FragmentShader,
           GlUseProgram, GlGetUniformLocation ''u_Vertices'', GlUniform4fv 0 3 vertices,
           GlViewport 0 0 640 480, GlClearColor, GlClear, GlGenVertexArrays,
           GlBindVertexArray, GlDrawArrays 0 3, Malloc (640 * 480 * 3),
           GlReadPixels 0 0 640 480, Fopen ''output.ppm'' ''wb''] @
          (tl (save_ppm_events env_link_failed ''output.ppm'' WIDTH HEIGHT) @ cleanup_events)"
    unfolding trace_main_ok [OF ok]
    by (simp add: link_events_def uniform_events_def draw_events_def save_ppm_events_def
        WIDTH_def HEIGHT_def env_link_failed_def env_ok_def)
  then have "sublist
     [GlLinkProgram, GlDeleteShader VertexShader, GlDeleteShader FragmentShader, GlUseProgram,
      GlGetUniformLocation ''u_Vertices'', GlUniform4fv 0 3 vertices,
      GlViewport 0 0 640 480, GlClearColor, GlClear, GlGenVertexArrays, GlBindVertexArray,
      GlDrawArrays 0 3, Malloc (640 * 480 * 3), GlReadPixels 0 0 640 480,
      Fopen ''output.ppm'' ''wb'']
     (trace (snd (main env_link_failed Map.empty)))"
    by (simp only: sublist_appendI)
  moreover have "\<not> link_status env_link_failed"
    by (simp add: env_link_failed_def)
  ultimately show ?thesis
    using ok by (simp add: fst_main)
qed

text \<open>
  C5, amended. In a run whose setup succeeds, a stage that does not compile has its log
  fetched into the 512-byte array and printed, at most 511 characters and a terminator,
  and neither a compile failure nor a link failure aborts: whatever the compile and link
  results, the run makes, from \<^verbatim>\<open>glLinkProgram\<close> on, exactly the calls of the uniform
  lookup, the draw, the readback, \<^verbatim>\<open>save_ppm\<close> and the cleanup, and returns 0. Where
  \<^verbatim>\<open>output.ppm\<close> can be opened the file is written, header and \<open>640 * 480 * 3\<close> bytes;
  where it cannot, the files are left as they were. The link result has no effect on the
  run at all.
\<close>

theorem compile_and_link_failures_do_not_abort:
  assumes "setup_ok env"
  shows "(\<not> compile_status env shader \<longrightarrow>
            GlGetShaderInfoLog shader 512 \<in> set (trace (snd (main env fs))) \<and>
            Stderr (''Shader Compile Error: '' @ glGetShaderInfoLog env shader 512 @ ''\<newline>'')
              \<in> set (trace (snd (main env fs)))) \<and>
         length (glGetShaderInfoLog env shader 512) < 512 \<and>
         suffix
           ([GlLinkProgram, GlDeleteShader VertexShader, GlDeleteShader FragmentShader,
             GlUseProgram, GlGetUniformLocation ''u_Vertices''] @ uniform_events env @
            [GlViewport 0 0 640 480, GlClearColor, GlClear, GlGenVertexArrays,
             GlBindVertexArray, GlDrawArrays 0 3, Malloc (640 * 480 * 3),
             GlReadPixels 0 0 640 480] @
            save_ppm_events env ''output.ppm'' 640 480 @ cleanup_events)
           (trace (snd (main env fs))) \<and>
         fst (main env fs) = 0 \<and>
         (fopen_ok env ''output.ppm'' \<longrightarrow>
            (\<exists>payload.
               files (snd (main env fs)) ''output.ppm'' =
                 Some (''P6\<newline>640 480\<newline>255\<newline>'' @ payload) \<and>
               length payload = 640 * 480 * 3)) \<and>
         (\<not> fopen_ok env ''output.ppm'' \<longrightarrow> files (snd (main env fs)) = fs) \<and>
         main (env\<lparr>link_status := b\<rparr>) fs = main env fs"
proof (intro conjI impI)
  show "GlGetShaderInfoLog shader 512 \<in> set (trace (snd (main env fs)))"
    and "Stderr (''Shader Compile Error: '' @ glGetShaderInfoLog env shader 512 @ ''\<newline>'')
          \<in> set (trace (snd (main env fs)))"
    if "\<not> compile_status env shader"
    using assms that
    by (cases shader; simp add: trace_main_ok shader_events_def compile_events_def)+
  show "length (glGetShaderInfoLog env shader 512) < 512"
    by (simp add: glGetShaderInfoLog_def)
  have "trace (snd (main env fs)) =
          (setup_events @ shader_events env @ take 3 link_events) @
          ([GlLinkProgram, GlDeleteShader VertexShader, GlDeleteShader FragmentShader,
            GlUseProgram, GlGetUniformLocation ''u_Vertices''] @ uniform_events env @
           [GlViewport 0 0 640 480, GlClearColor, GlClear, GlGenVertexArrays,
            GlBindVertexArray, GlDrawArrays 0 3, Malloc (640 * 480 * 3),
            GlReadPixels 0 0 640 480] @
           save_ppm_events env ''output.ppm'' 640 480 @ cleanup_events)"
    using assms
    by (simp add: trace_main_ok link_events_def draw_events_def WIDTH_def HEIGHT_def)
  then show "suffix
           ([GlLinkProgram, GlDeleteShader VertexShader, GlDeleteShader FragmentShader,
             GlUseProgram, GlGetUniformLocation ''u_Vertices''] @ uniform_events env @
            [GlViewport 0 0 640 480, GlClearColor, GlClear, GlGenVertexArrays,
             GlBindVertexArray, GlDrawArrays 0 3, Malloc (640 * 480 * 3),
             GlReadPixels 0 0 640 480] @
            save_ppm_events env ''output.ppm'' 640 480 @ cleanup_events)
           (trace (snd (main env fs)))"
    by (rule suffixI)
  show "fst (main env fs) = 0"
    using assms by (simp add: fst_main)
  show "\<exists>payload.
          files (snd (main env fs)) ''output.ppm'' =
            Some (''P6\<newline>640 480\<newline>255\<newline>'' @ payload) \<and>
          length payload = 640 * 480 * 3"
    if "fopen_ok env ''output.ppm''"
    using assms that by (rule main_output_file)
  show "files (snd (main env fs)) = fs" if "\<not> fopen_ok env ''output.ppm''"
    using assms that by (simp add: files_main_ok)
  show "main (env\<lparr>link_status := b\<rparr>) fs = main env fs"
    by (rule main_ignores_link_status)
qed

theorem compile_and_link_failures_do_not_abort_witness:
  "setup_ok env_compile_failed \<and> \<not> compile_status env_compile_failed VertexShader \<and>
   GlGetShaderInfoLog VertexShader 512 \<in> set (trace (snd (main env_compile_failed Map.empty))) \<and>
   Stderr ''Shader Compile Error: 0:1(1): error: syntax error\<newline>''
     \<in> set (trace (snd (main env_compile_failed Map.empty))) \<and>
   fst (main env_compile_failed Map.empty) = 0 \<and>
   fopen_ok env_compile_failed ''output.ppm'' \<and>
   (\<exists>payload.
      files (snd (main env_compile_failed Map.empty)) ''output.ppm'' =
        Some (''P6\<newline>640 480\<newline>255\<newline>'' @ payload) \<and>
      length payload = 640 * 480 * 3) \<and>
   main (env_compile_failed\<lparr>link_status := False\<rparr>) Map.empty = main env_compile_failed Map.empty"
  using compile_and_link_failures_do_not_abort [of env_compile_failed VertexShader Map.empty False]
  by (simp add: env_compile_failed_def env_ok_def setup_ok_def glGetShaderInfoLog_def)

text \<open>
  C6. When the uniform location is \<open>-1\<close>, the run prints the warning, uploads no
  geometry, and from there makes exactly the calls of the draw, the readback,
  \<^verbatim>\<open>save_ppm\<close> and the cleanup; it returns 0 and, where \<^verbatim>\<open>output.ppm\<close> can be opened, the
  file is written.
\<close>

theorem missing_uniform_is_not_fatal:
  assumes "setup_ok env" and "uniform_location env = - 1"
  shows "suffix
           ([GlGetUniformLocation ''u_Vertices'',
             Stderr ''Warning: Could not find u_Vertices uniform location.\<newline>'',
             GlViewport 0 0 640 480, GlClearColor, GlClear, GlGenVertexArrays,
             GlBindVertexArray, GlDrawArrays 0 3, Malloc (640 * 480 * 3),
             GlReadPixels 0 0 640 480] @
            save_ppm_events env ''output.ppm'' 640 480 @ cleanup_events)
           (trace (snd (main env fs))) \<and>
         (\<forall>loc count v. GlUniform4fv loc count v \<notin> set (trace (snd (main env fs)))) \<and>
         fst (main env fs) = 0 \<and>
         (fopen_ok env ''output.ppm'' \<longrightarrow>
            (\<exists>payload.
               files (snd (main env fs)) ''output.ppm'' =
                 Some (''P6\<newline>640 480\<newline>255\<newline>'' @ payload) \<and>
               length payload = 640 * 480 * 3))"
proof (intro conjI allI impI)
  have "trace (snd (main env fs)) =
          (setup_events @ shader_events env @ butlast link_events) @
          ([GlGetUniformLocation ''u_Vertices'',
            Stderr ''Warning: Could not find u_Vertices uniform location.\<newline>'',
            GlViewport 0 0 640 480, GlClearColor, GlClear, GlGenVertexArrays,
            GlBindVertexArray, GlDrawArrays 0 3, Malloc (640 * 480 * 3),
            GlReadPixels 0 0 640 480] @
           save_ppm_events env ''output.ppm'' 640 480 @ cleanup_events)"
    using assms
    by (simp add: trace_main_ok link_events_def uniform_events_def draw_events_def
        WIDTH_def HEIGHT_def)
  then show "suffix
           ([GlGetUniformLocation ''u_Vertices'',
             Stderr ''Warning: Could not find u_Vertices uniform location.\<newline>'',
             GlViewport 0 0 640 480, GlClearColor, GlClear, GlGenVertexArrays,
             GlBindVertexArray, GlDrawArrays 0 3, Malloc (640 * 480 * 3),
             GlReadPixels 0 0 640 480] @
            save_ppm_events env ''output.ppm'' 640 480 @ cleanup_events)
           (trace (snd (main env fs)))"
    by (rule suffixI)
  show "GlUniform4fv loc count v \<notin> set (trace (snd (main env fs)))" for loc count v
    using assms no_uniform_upload [of env loc count v] by (simp only: trace_main_ok) simp
  show "fst (main env fs) = 0"
    using assms(1) by (simp add: fst_main)
  show "\<exists>payload.
          files (snd (main env fs)) ''output.ppm'' =
            Some (''P6\<newline>640 480\<newline>255\<newline>'' @ payload) \<and>
          length payload = 640 * 480 * 3"
    if "fopen_ok env ''output.ppm''"
    using assms(1) that by (rule main_output_file)
qed

theorem missing_uniform_is_not_fatal_witness:
  "setup_ok env_no_uniform \<and> uniform_location env_no_uniform = - 1 \<and>
   fst (main env_no_uniform Map.empty) = 0 \<and>
   GlUniform4fv (- 1) 3 vertices \<notin> set (trace (snd (main env_no_uniform Map.empty))) \<and>
   (\<exists>payload.
      files (snd (main env_no_uniform Map.empty)) ''output.ppm'' =
        Some (''P6\<newline>640 480\<newline>255\<newline>'' @ payload) \<and>
      length payload = 640 * 480 * 3)"
  using missing_uniform_is_not_fatal [of env_no_uniform Map.empty]
  by (simp add: env_no_uniform_def env_ok_def setup_ok_def)

text \<open>
  C7. When the framebuffer is not complete, the run returns \<open>-1\<close> with no draw call, no
  readback and no \<^verbatim>\<open>fopen\<close> in its trace, and every file as it was; where the six EGL steps
  before it succeeded, the completeness check and its error message are the last two
  events.
\<close>

theorem incomplete_framebuffer_halts:
  assumes "\<not> framebuffer_complete env"
  shows "fst (main env fs) = - 1 \<and>
         files (snd (main env fs)) = fs \<and>
         (\<forall>first count. GlDrawArrays first count \<notin> set (trace (snd (main env fs)))) \<and>
         (\<forall>x y w h. GlReadPixels x y w h \<notin> set (trace (snd (main env fs)))) \<and>
         (\<forall>path mode. Fopen path mode \<notin> set (trace (snd (main env fs)))) \<and>
         (display_ok env \<and> initialize_ok env \<and> choose_config_ok env \<and> context_ok env \<and>
          surface_ok env \<and> make_current_ok env \<longrightarrow>
            suffix [GlCheckFramebufferStatus, Stderr ''Error: Framebuffer is not complete!\<newline>'']
              (trace (snd (main env fs))))"
proof -
  have failed: "\<not> setup_ok env"
    using assms by (simp add: setup_ok_def)
  then have sub: "set (trace (snd (main env fs))) \<subseteq> set setup_events \<union> range Stderr"
    and fs: "files (snd (main env fs)) = fs"
    using main_setup_failed [of env fs] by simp_all
  have none: "(\<forall>a b. e \<noteq> GlDrawArrays a b) \<and> (\<forall>x y w h. e \<noteq> GlReadPixels x y w h) \<and>
              (\<forall>p m. e \<noteq> Fopen p m)"
    if "e \<in> set (trace (snd (main env fs)))" for e
    using that sub setup_events_only [of e] by blast
  have last: "suffix [GlCheckFramebufferStatus, Stderr ''Error: Framebuffer is not complete!\<newline>'']
                (trace (snd (main env fs)))"
    if "display_ok env" "initialize_ok env" "choose_config_ok env" "context_ok env"
       "surface_ok env" "make_current_ok env"
  proof -
    have "trace (snd (main env fs)) =
            butlast setup_events @
            [GlCheckFramebufferStatus, Stderr ''Error: Framebuffer is not complete!\<newline>'']"
      using that assms by (simp add: trace_main_incomplete setup_events_def)
    then show ?thesis
      by (rule suffixI)
  qed
  have nd: "GlDrawArrays a b \<notin> set (trace (snd (main env fs)))" for a b
    using none by blast
  have nr: "GlReadPixels x y w h \<notin> set (trace (snd (main env fs)))" for x y w h
    using none by blast
  have nf: "Fopen p m \<notin> set (trace (snd (main env fs)))" for p m
    using none by blast
  show ?thesis
    using failed by (simp add: fst_main fs nd nr nf last)
qed

theorem incomplete_framebuffer_halts_witness:
  "\<not> framebuffer_complete env_incomplete \<and>
   fst (main env_incomplete Map.empty) = - 1 \<and>
   files (snd (main env_incomplete Map.empty)) = Map.empty \<and>
   GlDrawArrays 0 3 \<notin> set (trace (snd (main env_incomplete Map.empty))) \<and>
   suffix [GlCheckFramebufferStatus, Stderr ''Error: Framebuffer is not complete!\<newline>'']
     (trace (snd (main env_incomplete Map.empty)))"
  using incomplete_framebuffer_halts [of env_incomplete Map.empty]
  by (simp add: env_incomplete_def env_ok_def)

text \<open>
  C9. The only path \<^verbatim>\<open>main\<close> ever opens is \<^verbatim>\<open>output.ppm\<close>, for binary writing; every run
  whose setup succeeds opens it, and no other file changes.
\<close>

theorem output_path_is_output_ppm:
  "(\<forall>path mode. Fopen path mode \<in> set (trace (snd (main env fs))) \<longrightarrow>
      path = ''output.ppm'' \<and> mode = ''wb'') \<and>
   (setup_ok env \<longrightarrow> Fopen ''output.ppm'' ''wb'' \<in> set (trace (snd (main env fs)))) \<and>
   (\<forall>path. path \<noteq> ''output.ppm'' \<longrightarrow> files (snd (main env fs)) path = fs path)"
proof (cases "setup_ok env")
  case True
  then show ?thesis
    by (simp only: trace_main_ok files_main_ok fopen_events) simp
next
  case False
  then have sub: "set (trace (snd (main env fs))) \<subseteq> set setup_events \<union> range Stderr"
    and fs: "files (snd (main env fs)) = fs"
    using main_setup_failed [of env fs] by simp_all
  have "Fopen p m \<notin> set (trace (snd (main env fs)))" for p m
    using sub setup_events_only [of "Fopen p m"] by blast
  with False fs show ?thesis
    by simp
qed

theorem output_path_is_output_ppm_witness:
  "Fopen ''output.ppm'' ''wb'' \<in> set (trace (snd (main env_ok Map.empty))) \<and>
   Fopen ''output.pgm'' ''wb'' \<notin> set (trace (snd (main env_ok Map.empty))) \<and>
   files (snd (main env_ok Map.empty)) ''output.pgm'' = None"
  using output_path_is_output_ppm [of env_ok Map.empty]
  by (auto simp: env_ok_def setup_ok_def)



end
